theory Spec2Isabelle
  imports Complex_Main "HOL-Library.Sublist" "HOL-Library.AList"
begin

section \<open>Python values\<close>

text \<open>
  The client library is Python.  A Python \<open>str\<close> is modelled as a \<open>string\<close> whose
  characters are the code points below 256; a Python \<open>int\<close> is an \<open>int\<close>; a \<open>dict\<close> is an
  association list in insertion order (its keys are distinct in every dictionary Python
  builds); \<open>None\<close> is \<open>PNone\<close>.  A finite \<open>float\<close> is kept as a rational: only its
  truth value and its comparison with zero are ever used.
\<close>

record datetime =
  dt_year :: int
  dt_month :: int
  dt_day :: int
  dt_hour :: int
  dt_minute :: int
  dt_second :: int

datatype pyval =
    PNone
  | PBool bool
  | PInt int
  | PFloat rat
  | PStr string
  | PList "pyval list"
  | PDict "(string \<times> pyval) list"
  | PDatetime datetime

type_synonym pydict = "(string \<times> pyval) list"

section \<open>exceptions.py and the exception classes the code meets\<close>

text \<open>
  \<open>api.py\<close> declares a class \<open>ShotcutAPIError(Exception)\<close> of its own and imports nothing from
  \<open>exceptions.py\<close>, whose four classes are \<open>ShotcutAPIError\<close> and its subclasses
  \<open>RateLimitError\<close>, \<open>AuthenticationError\<close> and \<open>ValidationError\<close>.  \<open>RequestException\<close>
  stands for every class of \<open>requests.exceptions\<close>: the \<open>except\<close> clause of the pipeline
  tells them from no other.  The rest are built-in classes; \<open>OSError\<close> is the built-in
  class itself, which an \<open>except\<close> clause for its subclass \<open>RequestException\<close> lets pass.
\<close>

datatype exc_class =
    ShotcutAPIError_api
  | ShotcutAPIError
  | RateLimitError
  | AuthenticationError
  | ValidationError
  | RequestException
  | ValueError
  | TypeError
  | AttributeError
  | OverflowError
  | OSError

text \<open>An exception that was raised: its class and the argument it was built from.\<close>

datatype exn = Exn (exc_class_of: exc_class) (exc_arg: pyval)

text \<open>The error taxonomy of \<open>exceptions.py\<close>: the base class and its three subclasses.\<close>

definition in_taxonomy :: "exc_class \<Rightarrow> bool" where
  "in_taxonomy c =
     (c = ShotcutAPIError \<or> c = RateLimitError \<or> c = AuthenticationError \<or> c = ValidationError)"

section \<open>Built-ins of Python the code calls\<close>

text \<open>Truth value of a Python object, as \<open>if x\<close>, \<open>not x\<close> and \<open>x and y\<close> read it.\<close>

fun truthy :: "pyval \<Rightarrow> bool" where
  "truthy PNone = False"
| "truthy (PBool b) = b"
| "truthy (PInt n) = (n \<noteq> 0)"
| "truthy (PFloat r) = (r \<noteq> 0)"
| "truthy (PStr s) = (s \<noteq> [])"
| "truthy (PList xs) = (xs \<noteq> [])"
| "truthy (PDict d) = (d \<noteq> [])"
| "truthy (PDatetime t) = True"

text \<open>\<open>x != 0\<close>: the numbers \<open>0\<close>, \<open>0.0\<close> and \<open>False\<close> are equal to \<open>0\<close>, nothing else is.\<close>

fun ne_zero :: "pyval \<Rightarrow> bool" where
  "ne_zero (PInt n) = (n \<noteq> 0)"
| "ne_zero (PFloat r) = (r \<noteq> 0)"
| "ne_zero (PBool b) = b"
| "ne_zero v = True"

text \<open>The numbers: \<open>int\<close>, \<open>float\<close> and \<open>bool\<close>, which is a subclass of \<open>int\<close>.\<close>

fun is_number :: "pyval \<Rightarrow> bool" where
  "is_number (PInt n) = True"
| "is_number (PFloat r) = True"
| "is_number (PBool b) = True"
| "is_number v = False"

text \<open>\<open>d.get(key, default)\<close> on a dictionary.\<close>

definition dict_get :: "('k \<times> 'v) list \<Rightarrow> 'k \<Rightarrow> 'v \<Rightarrow> 'v" where
  "dict_get d key dflt = (case map_of d key of None \<Rightarrow> dflt | Some v \<Rightarrow> v)"

text \<open>
  White space as \<open>str.strip\<close> and the \<open>\s\<close> of \<open>re\<close> see it, among the code points below
  256: TAB to CR, FS to US, the space, NEL and the no-break space.
\<close>

definition is_space :: "char \<Rightarrow> bool" where
  "is_space c = (of_char c \<in> {9, 10, 11, 12, 13, 28, 29, 30, 31, 32, 133, 160 :: nat})"

text \<open>
  White space as \<open>int\<close> skips it around a literal: the ASCII white space TAB to CR and the
  space, and the white space above the ASCII range, NEL and the no-break space, which
  \<open>int\<close> first turns into spaces.  FS to US are not skipped: \<open>int('\x1f0')\<close> raises.
\<close>

definition is_int_space :: "char \<Rightarrow> bool" where
  "is_int_space c = (of_char c \<in> {9, 10, 11, 12, 13, 32, 133, 160 :: nat})"

definition is_digit :: "char \<Rightarrow> bool" where
  "is_digit c = (c \<in> set ''0123456789'')"

definition digit_val :: "char \<Rightarrow> int" where
  "digit_val c = of_char c - 48"


definition int_strip :: "string \<Rightarrow> string" where
  "int_strip s = rev (dropWhile is_int_space (rev (dropWhile is_int_space s)))"

text \<open>
  \<open>int(s)\<close> for a string, base 10: white space around the literal is skipped, one sign may
  lead, then come decimal digits, where a single underscore may stand between two digits.
  On every other string \<open>int\<close> raises \<open>ValueError\<close>.  (The interpreter's optional limit on
  the number of digits is not part of the model.)
\<close>

fun int_digits :: "int \<Rightarrow> bool \<Rightarrow> string \<Rightarrow> int option" where
  "int_digits acc after_digit [] = (if after_digit then Some acc else None)"
| "int_digits acc after_digit (c # cs) =
     (if is_digit c then int_digits (acc * 10 + digit_val c) True cs
      else if c = CHR ''_'' \<and> after_digit then int_digits acc False cs
      else None)"

definition int_literal :: "string \<Rightarrow> int option" where
  "int_literal s =
     (case int_strip s of
        [] \<Rightarrow> None
      | c # cs \<Rightarrow>
          if c = CHR ''-'' then map_option uminus (int_digits 0 False cs)
          else if c = CHR ''+'' then int_digits 0 False cs
          else int_digits 0 False (c # cs))"

definition py_int :: "string \<Rightarrow> exc_class + int" where
  "py_int s = (case int_literal s of None \<Rightarrow> Inl ValueError | Some n \<Rightarrow> Inr n)"





subsection \<open>Dates and times\<close>

definition is_leap :: "int \<Rightarrow> bool" where
  "is_leap y = (y mod 4 = 0 \<and> (y mod 100 \<noteq> 0 \<or> y mod 400 = 0))"

definition days_in_month :: "int \<Rightarrow> int \<Rightarrow> int" where
  "days_in_month y m =
     (if m = 2 then (if is_leap y then 29 else 28)
      else if m \<in> {4, 6, 9, 11} then 30 else 31)"

text \<open>
  The constructor \<open>datetime(year, month, day, hour, minute, second)\<close>: it raises
  \<open>ValueError\<close> (here \<open>None\<close>) unless every field is in its range.
\<close>

definition mk_datetime :: "int \<Rightarrow> int \<Rightarrow> int \<Rightarrow> int \<Rightarrow> int \<Rightarrow> int \<Rightarrow> datetime option" where
  "mk_datetime y m d hh mm ss =
     (if 1 \<le> y \<and> y \<le> 9999 \<and> 1 \<le> m \<and> m \<le> 12 \<and> 1 \<le> d \<and> d \<le> days_in_month y m
         \<and> 0 \<le> hh \<and> hh \<le> 23 \<and> 0 \<le> mm \<and> mm \<le> 59 \<and> 0 \<le> ss \<and> ss \<le> 59
      then Some \<lparr>dt_year = y, dt_month = m, dt_day = d,
                 dt_hour = hh, dt_minute = mm, dt_second = ss\<rparr>
      else None)"

text \<open>
  \<open>datetime.strptime(s, "%Y-%m-%d %H:%M:%S")\<close> (CPython 3.8 to 3.12).  The format is turned
  into the regular expression
  \<^verbatim>\<open>(\d\d\d\d)-(1[0-2]|0[1-9]|[1-9])-(3[0-1]|[1-2]\d|0[1-9]|[1-9]| [1-9])\s+\<close>
  \<^verbatim>\<open>(2[0-3]|[0-1]\d|\d):([0-5]\d|\d):(6[0-1]|[0-5]\d|\d)\<close>
  which is matched at the start of the string.  A group is a list of alternatives, tried in
  order; an alternative is a list of character classes, each the string of its members.
  \<open>matches\<close> lists every way the matcher can succeed, in the order backtracking finds them:
  the groups captured and the text left over.  \<open>ValueError\<close> is raised when there is no
  match, when text is left after the first match, and when the six numbers make no valid
  \<open>datetime\<close>.
\<close>

datatype piece = Group "string list list" | Lit char | Spaces

fun match_alt :: "string list \<Rightarrow> string \<Rightarrow> (string \<times> string) option" where
  "match_alt [] s = Some ([], s)"
| "match_alt (cls # alt) [] = None"
| "match_alt (cls # alt) (c # cs) =
     (if c \<in> set cls
      then (case match_alt alt cs of None \<Rightarrow> None | Some (g, r) \<Rightarrow> Some (c # g, r))
      else None)"

fun matches :: "piece list \<Rightarrow> string \<Rightarrow> (string list \<times> string) list" where
  "matches [] s = [([], s)]"
| "matches (Lit c # ps) s =
     (case s of [] \<Rightarrow> [] | x # xs \<Rightarrow> if x = c then matches ps xs else [])"
| "matches (Spaces # ps) s =
     concat (map (\<lambda>n. matches ps (drop n s))
                 (rev [1 ..< Suc (length (takeWhile is_space s))]))"
| "matches (Group alts # ps) s =
     concat (map (\<lambda>alt. case match_alt alt s of
                           None \<Rightarrow> []
                         | Some (g, r) \<Rightarrow> map (\<lambda>(gs, r'). (g # gs, r')) (matches ps r))
                 alts)"

definition digits :: string where
  "digits = ''0123456789''"

definition nonzero_digits :: string where
  "nonzero_digits = ''123456789''"

definition date_format :: "piece list" where
  "date_format =
     [Group [[digits, digits, digits, digits]],
      Lit CHR ''-'',
      Group [[''1'', ''012''], [''0'', nonzero_digits], [nonzero_digits]],
      Lit CHR ''-'',
      Group [[''3'', ''01''], [''12'', digits], [''0'', nonzero_digits], [nonzero_digits],
             ['' '', nonzero_digits]],
      Spaces,
      Group [[''2'', ''0123''], [''01'', digits], [digits]],
      Lit CHR '':'',
      Group [[''012345'', digits], [digits]],
      Lit CHR '':'',
      Group [[''6'', ''01''], [''012345'', digits], [digits]]]"

definition strptime :: "string \<Rightarrow> exc_class + datetime" where
  "strptime s =
     (case matches date_format s of
        [] \<Rightarrow> Inl ValueError
      | (gs, rest) # _ \<Rightarrow>
          if rest \<noteq> [] then Inl ValueError
          else (case map py_int gs of
                  [Inr y, Inr m, Inr d, Inr hh, Inr mm, Inr ss] \<Rightarrow>
                    (case mk_datetime y m d hh mm ss of
                       None \<Rightarrow> Inl ValueError
                     | Some dt \<Rightarrow> Inr dt)
                | _ \<Rightarrow> Inl ValueError))"

text \<open>The proleptic Gregorian date of a day number counted from 1970-01-01.\<close>

definition civil_from_days :: "int \<Rightarrow> int \<times> int \<times> int" where
  "civil_from_days n =
     (let z = n + 719468;
          era = z div 146097;
          doe = z - era * 146097;
          yoe = (doe - doe div 1460 + doe div 36524 - doe div 146096) div 365;
          doy = doe - (365 * yoe + yoe div 4 - yoe div 100);
          mp = (5 * doy + 2) div 153;
          d = doy - (153 * mp + 2) div 5 + 1;
          m = (if mp < 10 then mp + 3 else mp - 9);
          y = yoe + era * 400 + (if m \<le> 2 then 1 else 0)
      in (y, m, d))"

text \<open>
  \<open>datetime.fromtimestamp(t)\<close> for an integer \<open>t\<close>, as CPython 3.8 to 3.12 computes it on
  Linux with glibc, where \<open>time_t\<close> has 64 bits and \<open>int\<close> 32.  The time zone of the process
  is given by its offset from UTC in seconds at each instant.

  \<^item> A \<open>t\<close> that does not fit \<open>time_t\<close> raises \<open>OverflowError\<close>.
  \<^item> \<open>localtime_r\<close> breaks the instant down into wall-clock fields; it fails, and
    \<open>OSError\<close> is raised, when the year minus 1900 does not fit \<open>int\<close>.
  \<^item> \<open>utc_to_seconds\<close> counts the seconds of the wall-clock fields from day one of year
    one and raises \<open>ValueError\<close> for a year outside 1..9999.
  \<^item> To find out whether the wall-clock time is the second of two equal ones,
    \<open>fromtimestamp\<close> also converts the instant 24 hours earlier and, when the offset has
    dropped in between, one more instant; a conversion that fails there fails the call.
    So the first day of year one raises \<open>ValueError\<close>.
\<close>

definition fits_time_t :: "int \<Rightarrow> bool" where
  "fits_time_t t = (- (2 ^ 63) \<le> t \<and> t < 2 ^ 63)"

definition localtime :: "(int \<Rightarrow> int) \<Rightarrow> int \<Rightarrow> exc_class + int \<times> int \<times> int \<times> int \<times> int \<times> int" where
  "localtime offset t =
     (let wall = t + offset t;
          (y, m, d) = civil_from_days (wall div 86400);
          secs = wall mod 86400
      in if - (2 ^ 31) \<le> y - 1900 \<and> y - 1900 < 2 ^ 31
         then Inr (y, m, d, secs div 3600, secs mod 3600 div 60, secs mod 60)
         else Inl OSError)"

definition ymd_to_ord :: "int \<Rightarrow> int \<Rightarrow> int \<Rightarrow> int" where
  "ymd_to_ord y m d =
     (let p = y - 1
      in p * 365 + p div 4 - p div 100 + p div 400
         + sum_list (map (days_in_month y) [1 .. m - 1]) + d)"

definition utc_to_seconds :: "int \<Rightarrow> int \<Rightarrow> int \<Rightarrow> int \<Rightarrow> int \<Rightarrow> int \<Rightarrow> exc_class + int" where
  "utc_to_seconds y m d hh mm ss =
     (if y < 1 \<or> 9999 < y then Inl ValueError
      else Inr (((ymd_to_ord y m d * 24 + hh) * 60 + mm) * 60 + ss))"

definition local_seconds :: "(int \<Rightarrow> int) \<Rightarrow> int \<Rightarrow> exc_class + int" where
  "local_seconds offset u =
     (case localtime offset u of
        Inl c \<Rightarrow> Inl c
      | Inr (y, m, d, hh, mm, ss) \<Rightarrow> utc_to_seconds y m d hh mm ss)"

definition fromtimestamp :: "(int \<Rightarrow> int) \<Rightarrow> int \<Rightarrow> exc_class + datetime" where
  "fromtimestamp offset t =
     (if \<not> fits_time_t t then Inl OverflowError
      else
        (case localtime offset t of
           Inl c \<Rightarrow> Inl c
         | Inr (y, m, d, hh, mm, ss) \<Rightarrow>
             (case utc_to_seconds y m d hh mm ss of
                Inl c \<Rightarrow> Inl c
              | Inr result_seconds \<Rightarrow>
                  (case local_seconds offset (t - 86400) of
                     Inl c \<Rightarrow> Inl c
                   | Inr probe_seconds \<Rightarrow>
                       (let transition = result_seconds - probe_seconds - 86400
                        in case (if transition < 0 then local_seconds offset (t + transition)
                                 else Inr probe_seconds) of
                             Inl c \<Rightarrow> Inl c
                           | Inr probe \<Rightarrow>
                               (case mk_datetime y m d hh mm ss of
                                  None \<Rightarrow> Inl ValueError
                                | Some dt \<Rightarrow> Inr dt))))))"

text \<open>\<open>str(dt)\<close> of a naive datetime without microseconds: \<open>YYYY-MM-DD HH:MM:SS\<close>.\<close>

definition digit_char :: "int \<Rightarrow> char" where
  "digit_char n = ''0123456789'' ! nat (n mod 10)"

definition pad2 :: "int \<Rightarrow> string" where
  "pad2 n = [digit_char (n div 10), digit_char n]"

definition pad4 :: "int \<Rightarrow> string" where
  "pad4 n = [digit_char (n div 1000), digit_char (n div 100), digit_char (n div 10), digit_char n]"

definition str_datetime :: "datetime \<Rightarrow> string" where
  "str_datetime t =
     pad4 (dt_year t) @ ''-'' @ pad2 (dt_month t) @ ''-'' @ pad2 (dt_day t) @ '' '' @
     pad2 (dt_hour t) @ '':'' @ pad2 (dt_minute t) @ '':'' @ pad2 (dt_second t)"

section \<open>api.py\<close>

text \<open>
  What the interpreter and its libraries decide and the repository does not: the offset of
  the local time zone, and the text of the exceptions that built-ins raise.
\<close>

datatype builtin_failure =
    IntLiteral string
  | TimestampRange int
  | NoGetAttribute pyval
  | InitArguments string "string list"
  | StrptimeArgument pyval

record runtime =
  utc_offset :: "int \<Rightarrow> int"
  builtin_text :: "builtin_failure \<Rightarrow> string"

text \<open>
  \<open>ShotcutAPI.__init__\<close>:
  \<^verbatim>\<open>
  self.api_key = api_key
  self.base_url = "https://shotcut.in/api"
  self.headers = {"Authorization": f"Bearer {api_key}", "Content-Type": "application/json"}
  \<close>
\<close>

record client =
  api_key :: string
  base_url :: string
  headers :: "(string \<times> string) list"

definition ShotcutAPI :: "string \<Rightarrow> client" where
  "ShotcutAPI key =
     \<lparr>api_key = key,
      base_url = ''https://shotcut.in/api'',
      headers = [(''Authorization'', ''Bearer '' @ key), (''Content-Type'', ''application/json'')]\<rparr>"

text \<open>
  The one call that leaves the process, \<open>requests.request(method=, url=, headers=, json=,
  params=)\<close>, takes a request and either raises or answers.  Of the answer the code reads
  \<open>response.json()\<close>, which raises or gives the decoded body, and \<open>response.headers.get\<close>.
  An exception of a library comes with its class and its \<open>str\<close>.
\<close>

record request =
  req_method :: string
  req_url :: string
  req_headers :: "(string \<times> string) list"
  req_json :: "pydict option"
  req_params :: "pydict option"

record response =
  resp_headers :: "string \<rightharpoonup> string"
  resp_json :: "(exc_class \<times> string) + pyval"

type_synonym transport = "request \<Rightarrow> (exc_class \<times> string) + response"

text \<open>\<open>data if data else None\<close>\<close>

definition if_nonempty :: "pydict option \<Rightarrow> pydict option" where
  "if_nonempty data = (case data of None \<Rightarrow> None | Some d \<Rightarrow> if d \<noteq> [] then Some d else None)"

text \<open>The request \<open>_make_request\<close> hands to \<open>requests.request\<close>.\<close>

definition request_sent :: "client \<Rightarrow> string \<Rightarrow> string \<Rightarrow> pydict option \<Rightarrow> pydict option \<Rightarrow> request" where
  "request_sent self method endpoint data params =
     \<lparr>req_method = method,
      req_url = base_url self @ ''/'' @ endpoint,
      req_headers = headers self,
      req_json = if_nonempty data,
      req_params = if_nonempty params\<rparr>"

text \<open>
  An exception a library call raises inside the \<open>try\<close> block, as it leaves
  \<open>_make_request\<close>:
  \<^verbatim>\<open>
  except requests.exceptions.RequestException as e:
      raise ShotcutAPIError(f"Request failed: {str(e)}")
  \<close>
  Every other class passes through.
\<close>

definition leaves_try :: "exc_class \<Rightarrow> string \<Rightarrow> exn" where
  "leaves_try c msg =
     (if c = RequestException then Exn ShotcutAPIError_api (PStr (''Request failed: '' @ msg))
      else Exn c (PStr msg))"

text \<open>
  \<^verbatim>\<open>
  if response.headers.get('X-RateLimit-Remaining') == '0':
      reset_time = datetime.fromtimestamp(int(response.headers.get('X-RateLimit-Reset', 0)))
      raise ShotcutAPIError(f"Rate limit exceeded. Reset at {reset_time}")
  \<close>
  \<open>None\<close> when the check lets the response pass, else the exception raised.
\<close>

definition reset_error :: "runtime \<Rightarrow> int \<Rightarrow> exn" where
  "reset_error rt t =
     (case fromtimestamp (utc_offset rt) t of
        Inl c \<Rightarrow> leaves_try c (builtin_text rt (TimestampRange t))
      | Inr reset_time \<Rightarrow>
          Exn ShotcutAPIError_api
            (PStr (''Rate limit exceeded. Reset at '' @ str_datetime reset_time)))"

definition rate_limit_check :: "runtime \<Rightarrow> (string \<rightharpoonup> string) \<Rightarrow> exn option" where
  "rate_limit_check rt hdrs =
     (if hdrs ''X-RateLimit-Remaining'' = Some ''0'' then
        (case hdrs ''X-RateLimit-Reset'' of
           None \<Rightarrow> Some (reset_error rt 0)
         | Some s \<Rightarrow>
             (case py_int s of
                Inl c \<Rightarrow> Some (leaves_try c (builtin_text rt (IntLiteral s)))
              | Inr t \<Rightarrow> Some (reset_error rt t)))
      else None)"

text \<open>
  \<^verbatim>\<open>
  if response_data.get('error') and response_data['error'] != 0:
      raise ShotcutAPIError(response_data.get('message', 'Unknown API error'))
  return response_data
  \<close>
  Only a dictionary has \<open>get\<close>; on any other decoded body the attribute lookup raises
  \<open>AttributeError\<close>.
\<close>

definition api_error_check :: "runtime \<Rightarrow> pyval \<Rightarrow> exn + pyval" where
  "api_error_check rt response_data =
     (case response_data of
        PDict d \<Rightarrow>
          if truthy (dict_get d ''error'' PNone) \<and> ne_zero (dict_get d ''error'' PNone)
          then Inl (Exn ShotcutAPIError_api (dict_get d ''message'' (PStr ''Unknown API error'')))
          else Inr response_data
      | _ \<Rightarrow> Inl (leaves_try AttributeError (builtin_text rt (NoGetAttribute response_data))))"

text \<open>
  \<open>_make_request\<close>: one attempt.  \<open>receive\<close> is everything after \<open>requests.request\<close> has
  returned or raised, the checks in the order of the source.
\<close>

definition receive :: "runtime \<Rightarrow> (exc_class \<times> string) + response \<Rightarrow> exn + pyval" where
  "receive rt outcome =
     (case outcome of
        Inl (c, msg) \<Rightarrow> Inl (leaves_try c msg)
      | Inr response \<Rightarrow>
          (case resp_json response of
             Inl (c, msg) \<Rightarrow> Inl (leaves_try c msg)
           | Inr response_data \<Rightarrow>
               (case rate_limit_check rt (resp_headers response) of
                  Some e \<Rightarrow> Inl e
                | None \<Rightarrow> api_error_check rt response_data)))"

definition make_request ::
  "runtime \<Rightarrow> transport \<Rightarrow> client \<Rightarrow> string \<Rightarrow> string \<Rightarrow> pydict option \<Rightarrow> pydict option
     \<Rightarrow> exn + pyval" where
  "make_request rt send self method endpoint data params =
     receive rt (send (request_sent self method endpoint data params))"

text \<open>
  \<open>create_domain\<close> puts all three entries into the body, absent ones as \<open>None\<close>;
  \<open>update_domain\<close> adds an entry only if its argument is given and not empty.
  \<^verbatim>\<open>
  data = {'domain': domain, 'redirectroot': redirect_root, 'redirect404': redirect_404}
  return self._make_request("POST", "domain/add", data=data)
  \<close>
\<close>

definition opt_str :: "string option \<Rightarrow> pyval" where
  "opt_str v = (case v of None \<Rightarrow> PNone | Some s \<Rightarrow> PStr s)"

definition create_domain_data :: "string \<Rightarrow> string option \<Rightarrow> string option \<Rightarrow> pydict" where
  "create_domain_data domain redirect_root redirect_404 =
     [(''domain'', PStr domain),
      (''redirectroot'', opt_str redirect_root),
      (''redirect404'', opt_str redirect_404)]"

definition create_domain ::
  "runtime \<Rightarrow> transport \<Rightarrow> client \<Rightarrow> string \<Rightarrow> string option \<Rightarrow> string option \<Rightarrow> exn + pyval" where
  "create_domain rt send self domain redirect_root redirect_404 =
     make_request rt send self ''POST'' ''domain/add''
       (Some (create_domain_data domain redirect_root redirect_404)) None"

text \<open>
  \<^verbatim>\<open>
  data = {}
  if redirect_root:
      data['redirectroot'] = redirect_root
  if redirect_404:
      data['redirect404'] = redirect_404
  return self._make_request("PUT", f"domain/{domain_id}/update", data=data)
  \<close>
\<close>

definition update_domain_data :: "string option \<Rightarrow> string option \<Rightarrow> pydict" where
  "update_domain_data redirect_root redirect_404 =
     (if truthy (opt_str redirect_root) then [(''redirectroot'', opt_str redirect_root)] else []) @
     (if truthy (opt_str redirect_404) then [(''redirect404'', opt_str redirect_404)] else [])"

section \<open>utils.py\<close>

text \<open>
  \<^verbatim>\<open>
  def validate_date(date_str):
      if not date_str:
          return True
      try:
          datetime.strptime(date_str, "%Y-%m-%d %H:%M:%S")
          return True
      except ValueError:
          return False
  \<close>
  The argument is \<open>None\<close> or a string; \<open>Inl\<close> is an exception that leaves the function.
\<close>

definition validate_date :: "string option \<Rightarrow> exc_class + bool" where
  "validate_date date_str =
     (case date_str of
        None \<Rightarrow> Inr True
      | Some s \<Rightarrow>
          if s = [] then Inr True
          else (case strptime s of
                  Inr dt \<Rightarrow> Inr True
                | Inl c \<Rightarrow> if c = ValueError then Inr False else Inl c))"

text \<open>
  \<^verbatim>\<open>return {k: v for k, v in params.items() if v is not None}\<close>
\<close>

definition clean_params :: "('k \<times> pyval) list \<Rightarrow> ('k \<times> pyval) list" where
  "clean_params params = [(k, v) \<leftarrow> params. v \<noteq> PNone]"





section \<open>models.py\<close>

text \<open>
  The record kinds are dataclasses.  A dataclass is given by its name and its fields in the
  order they are declared, the fields of \<open>BaseModel\<close> first, each with its default value if
  it has one.
\<close>

datatype model_class =
    BaseModel
  | Link
  | Campaign
  | Channel
  | Domain_model
  | Pixel
  | QRCode
  | Splash
  | AccountStats

definition class_name :: "model_class \<Rightarrow> string" where
  "class_name cls =
     (case cls of
        BaseModel \<Rightarrow> ''BaseModel''
      | Link \<Rightarrow> ''Link''
      | Campaign \<Rightarrow> ''Campaign''
      | Channel \<Rightarrow> ''Channel''
      | Domain_model \<Rightarrow> ''Domain''
      | Pixel \<Rightarrow> ''Pixel''
      | QRCode \<Rightarrow> ''QRCode''
      | Splash \<Rightarrow> ''Splash''
      | AccountStats \<Rightarrow> ''AccountStats'')"

definition base_fields :: "(string \<times> pyval option) list" where
  "base_fields = [(''id'', None), (''created_at'', None), (''updated_at'', None)]"

definition dataclass_fields :: "model_class \<Rightarrow> (string \<times> pyval option) list" where
  "dataclass_fields cls =
     (case cls of
        BaseModel \<Rightarrow> base_fields
      | Link \<Rightarrow> base_fields @
          [(''url'', None), (''shorturl'', None), (''title'', Some PNone),
           (''description'', Some PNone), (''location'', Some PNone), (''custom'', Some PNone),
           (''password'', Some PNone), (''expiry'', Some PNone), (''clicks'', Some (PInt 0)),
           (''status'', Some (PBool True))]
      | Campaign \<Rightarrow> base_fields @
          [(''name'', None), (''slug'', None), (''public'', Some (PBool False)),
           (''total_links'', Some (PInt 0)), (''total_clicks'', Some (PInt 0))]
      | Channel \<Rightarrow> base_fields @
          [(''name'', None), (''description'', Some PNone), (''color'', Some PNone),
           (''starred'', Some (PBool False)), (''total_items'', Some (PInt 0))]
      | Domain_model \<Rightarrow> base_fields @
          [(''domain'', None), (''status'', None), (''redirect_root'', Some PNone),
           (''redirect_404'', Some PNone), (''ssl_status'', Some (PBool False))]
      | Pixel \<Rightarrow> base_fields @
          [(''type'', None), (''name'', None), (''tag'', None), (''status'', Some (PBool True))]
      | QRCode \<Rightarrow> base_fields @
          [(''type'', None), (''data'', None), (''link'', None), (''background'', Some PNone),
           (''foreground'', Some PNone), (''logo'', Some PNone)]
      | Splash \<Rightarrow> base_fields @
          [(''name'', None), (''content'', None), (''status'', Some (PBool True))]
      | AccountStats \<Rightarrow>
          [(''total_links'', None), (''total_clicks'', None), (''total_campaigns'', None),
           (''total_channels'', None), (''total_domains'', None), (''total_pixels'', None),
           (''total_qr_codes'', None)])"

text \<open>An instance of a dataclass: its class and the value of every field.\<close>

record model_instance =
  inst_class :: model_class
  inst_fields :: pydict

text \<open>
  \<open>model_class(**data)\<close>, the \<open>__init__\<close> a dataclass generates: every keyword must name a
  field, and every field without a default must be given; else \<open>TypeError\<close>.  The values
  are stored as they come, no type is checked.
\<close>

definition bind_field :: "pydict \<Rightarrow> string \<times> pyval option \<Rightarrow> (string \<times> pyval) option" where
  "bind_field kwargs f =
     (case map_of kwargs (fst f) of
        Some v \<Rightarrow> Some (fst f, v)
      | None \<Rightarrow> map_option (Pair (fst f)) (snd f))"

definition dataclass_init :: "model_class \<Rightarrow> pydict \<Rightarrow> exc_class + model_instance" where
  "dataclass_init cls kwargs =
     (if list_all (\<lambda>k. k \<in> set (map fst (dataclass_fields cls))) (map fst kwargs)
      then (case those (map (bind_field kwargs) (dataclass_fields cls)) of
              None \<Rightarrow> Inl TypeError
            | Some vs \<Rightarrow> Inr \<lparr>inst_class = cls, inst_fields = vs\<rparr>)
      else Inl TypeError)"

text \<open>
  \<^verbatim>\<open>
  def convert_datetime(date_str):
      if not date_str:
          return None
      try:
          return datetime.strptime(date_str, "%Y-%m-%d %H:%M:%S")
      except ValueError:
          return None
  \<close>
  \<open>strptime\<close> raises \<open>TypeError\<close> when its argument is not a string.
\<close>

definition convert_datetime :: "pyval \<Rightarrow> exc_class + pyval" where
  "convert_datetime date_str =
     (if \<not> truthy date_str then Inr PNone
      else (case date_str of
              PStr s \<Rightarrow>
                (case strptime s of
                   Inr dt \<Rightarrow> Inr (PDatetime dt)
                 | Inl c \<Rightarrow> if c = ValueError then Inr PNone else Inl c)
            | _ \<Rightarrow> Inl TypeError))"

text \<open>
  \<^verbatim>\<open>
  if key in data:
      data[key] = convert_datetime(data[key])
  \<close>
  The dictionary is the caller's object; the function returns what it holds afterwards.
\<close>

definition convert_entry :: "string \<Rightarrow> pydict \<Rightarrow> exc_class + pydict" where
  "convert_entry key data =
     (case map_of data key of
        None \<Rightarrow> Inr data
      | Some v \<Rightarrow>
          (case convert_datetime v of
             Inl c \<Rightarrow> Inl c
           | Inr v' \<Rightarrow> Inr (AList.update key v' data)))"

text \<open>
  \<^verbatim>\<open>
  def create_model_from_response(model_class, data):
      if not data:
          return None
      if 'created_at' in data:
          data['created_at'] = convert_datetime(data['created_at'])
      if 'updated_at' in data:
          data['updated_at'] = convert_datetime(data['updated_at'])
      if 'expiry' in data:
          data['expiry'] = convert_datetime(data['expiry'])
      try:
          return model_class(**data)
      except TypeError as e:
          raise ValueError(f"Invalid data for {model_class.__name__}: {str(e)}")
  \<close>
  The first component of the result is the content of \<open>data\<close>, the caller's dictionary, when
  the call ends; the second is what the call returns (\<open>None\<close> or an instance) or raises.
  The conversions stand outside the \<open>try\<close>, so what they raise leaves the function as it is.
\<close>

definition create_model_from_response ::
  "runtime \<Rightarrow> model_class \<Rightarrow> pydict \<Rightarrow> pydict \<times> (exn + model_instance option)" where
  "create_model_from_response rt cls data =
     (if data = [] then (data, Inr None)
      else
        (case convert_entry ''created_at'' data of
           Inl c \<Rightarrow>
             (data, Inl (Exn c (PStr (builtin_text rt
                (StrptimeArgument (dict_get data ''created_at'' PNone))))))
         | Inr d1 \<Rightarrow>
             (case convert_entry ''updated_at'' d1 of
                Inl c \<Rightarrow>
                  (d1, Inl (Exn c (PStr (builtin_text rt
                     (StrptimeArgument (dict_get d1 ''updated_at'' PNone))))))
              | Inr d2 \<Rightarrow>
                  (case convert_entry ''expiry'' d2 of
                     Inl c \<Rightarrow>
                       (d2, Inl (Exn c (PStr (builtin_text rt
                          (StrptimeArgument (dict_get d2 ''expiry'' PNone))))))
                   | Inr d3 \<Rightarrow>
                       (d3,
                        case dataclass_init cls d3 of
                          Inr obj \<Rightarrow> Inr (Some obj)
                        | Inl c \<Rightarrow>
                            if c = TypeError
                            then Inl (Exn ValueError
                                   (PStr (''Invalid data for '' @ class_name cls @ '': '' @
                                          builtin_text rt
                                            (InitArguments (class_name cls) (map fst d3)))))
                            else Inl (Exn c (PStr (builtin_text rt
                                   (InitArguments (class_name cls) (map fst d3))))))))))"

text \<open>
  The three entries \<open>create_model_from_response\<close> converts, whether a value is a string, and
  the value \<open>convert_datetime\<close> returns for a string: the parsed date and time, or \<open>None\<close>
  when \<open>strptime\<close> rejects it.
\<close>

definition date_keys :: "string list" where
  "date_keys = [''created_at'', ''updated_at'', ''expiry'']"

fun is_str :: "pyval \<Rightarrow> bool" where
  "is_str (PStr s) = True"
| "is_str v = False"

definition parsed :: "string \<Rightarrow> pyval" where
  "parsed s = (case strptime s of Inr dt \<Rightarrow> PDatetime dt | Inl c \<Rightarrow> PNone)"

text \<open>What \<open>convert_datetime\<close> returns for a string or a falsy value.\<close>

definition date_value :: "pyval \<Rightarrow> pyval" where
  "date_value v = (case v of PStr s \<Rightarrow> parsed s | _ \<Rightarrow> PNone)"

text \<open>
  \<open>PaginatedResponse\<close> is a plain dataclass: its generated constructor stores the six
  arguments and checks nothing.  The record constructor is that \<open>__init__\<close>.
\<close>

record 'a PaginatedResponse =
  items :: "'a list"
  total :: int
  current_page :: int
  total_pages :: int
  has_next :: bool
  has_prev :: bool

definition pagination_invariant :: "'a PaginatedResponse \<Rightarrow> bool" where
  "pagination_invariant p = (has_next p = (current_page p < total_pages p))"

section \<open>Theorems\<close>

subsection \<open>Auxiliary facts\<close>

lemma truthy_ne_zero: "truthy v \<Longrightarrow> ne_zero v"
  by (cases v) auto

lemma number_truthy_iff_ne_zero: "is_number v \<Longrightarrow> truthy v = ne_zero v"
  by (cases v) auto

lemma body_check_after_rate_limit_check:
  assumes "send (request_sent self method endpoint data params) = Inr response"
      and "resp_json response = Inr (PDict d)"
      and "resp_headers response ''X-RateLimit-Remaining'' \<noteq> Some ''0''"
  shows "make_request rt send self method endpoint data params =
           (if truthy (dict_get d ''error'' PNone)
            then Inl (Exn ShotcutAPIError_api (dict_get d ''message'' (PStr ''Unknown API error'')))
            else Inr (PDict d))"
  using assms truthy_ne_zero [of "dict_get d ''error'' PNone"]
  by (auto simp: make_request_def receive_def rate_limit_check_def api_error_check_def)

lemma strptime_raises_ValueError: "strptime s = Inl c \<Longrightarrow> c = ValueError"
  unfolding strptime_def
  by (auto split: list.splits sum.splits option.splits if_splits prod.splits)

lemma convert_datetime_str: "convert_datetime (PStr s) = Inr (parsed s)"
proof (cases "strptime s")
  case (Inl c)
  then have "c = ValueError" by (rule strptime_raises_ValueError)
  with Inl show ?thesis
    by (cases "s = []") (simp_all add: convert_datetime_def parsed_def)
next
  case (Inr dt)
  then have "s \<noteq> []" by (auto simp: strptime_def date_format_def)
  with Inr show ?thesis by (simp add: convert_datetime_def parsed_def)
qed

lemma convert_datetime_ok:
  "is_str v \<or> \<not> truthy v \<Longrightarrow> convert_datetime v = Inr (date_value v)"
proof (cases v)
  case (PStr s)
  then show ?thesis by (simp add: convert_datetime_str date_value_def)
qed (auto simp: convert_datetime_def date_value_def)

lemma convert_entry_ok:
  assumes "\<And>v. map_of d k = Some v \<Longrightarrow> is_str v \<or> \<not> truthy v"
  shows "\<exists>d'. convert_entry k d = Inr d' \<and> map fst d' = map fst d
            \<and> map_of d' = (\<lambda>x. if x = k then map_option date_value (map_of d k) else map_of d x)"
proof (cases "map_of d k")
  case None
  then show ?thesis by (auto simp: convert_entry_def)
next
  case (Some v)
  then have "convert_datetime v = Inr (date_value v)"
    using assms convert_datetime_ok by blast
  moreover have "k \<in> set (map fst d)"
    using Some by (metis map_of_eq_None_iff option.distinct(1) set_map)
  ultimately show ?thesis
    using Some by (auto simp: convert_entry_def update_keys update_conv')
qed

lemma those_map_None: "those (map f xs) = None \<longleftrightarrow> (\<exists>x\<in>set xs. f x = None)"
  by (induction xs) (auto split: option.splits)

lemma bind_field_None:
  "bind_field kwargs f = None \<longleftrightarrow> fst f \<notin> set (map fst kwargs) \<and> snd f = None"
proof (cases "map_of kwargs (fst f)")
  case None
  then have "fst f \<notin> set (map fst kwargs)" by (simp add: map_of_eq_None_iff)
  with None show ?thesis by (simp add: bind_field_def)
next
  case (Some v)
  then have "(fst f, v) \<in> set kwargs" by (rule map_of_SomeD)
  then have "fst f \<in> set (map fst kwargs)" by force
  with Some show ?thesis by (simp add: bind_field_def)
qed

lemma dataclass_init_mismatch:
  assumes "(\<exists>k\<in>set (map fst kwargs). k \<notin> set (map fst (dataclass_fields cls)))
           \<or> (\<exists>f\<in>set (dataclass_fields cls). snd f = None \<and> fst f \<notin> set (map fst kwargs))"
  shows "dataclass_init cls kwargs = Inl TypeError"
proof (cases "list_all (\<lambda>k. k \<in> set (map fst (dataclass_fields cls))) (map fst kwargs)")
  case False
  then show ?thesis by (simp add: dataclass_init_def)
next
  case True
  then have "\<not> (\<exists>k\<in>set (map fst kwargs). k \<notin> set (map fst (dataclass_fields cls)))"
    by (simp add: list_all_iff)
  with assms obtain f where "f \<in> set (dataclass_fields cls)" "snd f = None"
      "fst f \<notin> set (map fst kwargs)"
    by blast
  then have "those (map (bind_field kwargs) (dataclass_fields cls)) = None"
    unfolding those_map_None using bind_field_None by blast
  with True show ?thesis by (simp add: dataclass_init_def)
qed

lemma create_model_state:
  assumes "data \<noteq> []"
      and ok0: "\<forall>k\<in>set date_keys. \<forall>v. map_of data k = Some v \<longrightarrow> is_str v \<or> \<not> truthy v"
  shows "\<exists>d3. map fst d3 = map fst data
           \<and> map_of d3 = (\<lambda>x. if x \<in> set date_keys then map_option date_value (map_of data x)
                               else map_of data x)
           \<and> create_model_from_response rt cls data =
               (d3,
                case dataclass_init cls d3 of
                  Inr obj \<Rightarrow> Inr (Some obj)
                | Inl c \<Rightarrow>
                    if c = TypeError
                    then Inl (Exn ValueError
                           (PStr (''Invalid data for '' @ class_name cls @ '': '' @
                                  builtin_text rt (InitArguments (class_name cls) (map fst d3)))))
                    else Inl (Exn c (PStr (builtin_text rt
                           (InitArguments (class_name cls) (map fst d3))))))"
proof -
  have ok: "\<And>k v. k \<in> set date_keys \<Longrightarrow> map_of data k = Some v \<Longrightarrow> is_str v \<or> \<not> truthy v"
    using ok0 by blast
  have "\<And>v. map_of data ''created_at'' = Some v \<Longrightarrow> is_str v \<or> \<not> truthy v"
    using ok [of "''created_at''"] by (simp add: date_keys_def)
  from convert_entry_ok [of data "''created_at''", OF this]
  obtain d1 where d1: "convert_entry ''created_at'' data = Inr d1" "map fst d1 = map fst data"
    "map_of d1 = (\<lambda>x. if x = ''created_at'' then map_option date_value (map_of data ''created_at'')
                        else map_of data x)"
    by blast
  have "\<And>v. map_of d1 ''updated_at'' = Some v \<Longrightarrow> is_str v \<or> \<not> truthy v"
    using ok [of "''updated_at''"] d1(3) by (simp add: date_keys_def)
  from convert_entry_ok [of d1 "''updated_at''", OF this]
  obtain d2 where d2: "convert_entry ''updated_at'' d1 = Inr d2" "map fst d2 = map fst d1"
    "map_of d2 = (\<lambda>x. if x = ''updated_at'' then map_option date_value (map_of d1 ''updated_at'')
                        else map_of d1 x)"
    by blast
  have "\<And>v. map_of d2 ''expiry'' = Some v \<Longrightarrow> is_str v \<or> \<not> truthy v"
    using ok [of "''expiry''"] d1(3) d2(3) by (simp add: date_keys_def)
  from convert_entry_ok [of d2 "''expiry''", OF this]
  obtain d3 where d3: "convert_entry ''expiry'' d2 = Inr d3" "map fst d3 = map fst d2"
    "map_of d3 = (\<lambda>x. if x = ''expiry'' then map_option date_value (map_of d2 ''expiry'')
                        else map_of d2 x)"
    by blast
  have keys: "map fst d3 = map fst data"
    using d1(2) d2(2) d3(2) by simp
  have vals: "map_of d3 = (\<lambda>x. if x \<in> set date_keys then map_option date_value (map_of data x)
                               else map_of data x)"
    unfolding d3(3) d2(3) d1(3) by (rule ext) (simp add: date_keys_def)
  have "create_model_from_response rt cls data =
               (d3,
                case dataclass_init cls d3 of
                  Inr obj \<Rightarrow> Inr (Some obj)
                | Inl c \<Rightarrow>
                    if c = TypeError
                    then Inl (Exn ValueError
                           (PStr (''Invalid data for '' @ class_name cls @ '': '' @
                                  builtin_text rt (InitArguments (class_name cls) (map fst d3)))))
                    else Inl (Exn c (PStr (builtin_text rt
                           (InitArguments (class_name cls) (map fst d3))))))"
    using assms(1) d1(1) d2(1) d3(1) by (simp add: create_model_from_response_def)
  with keys vals show ?thesis by blast
qed

subsection \<open>The request pipeline\<close>

text \<open>
  C1. A response with \<open>X-RateLimit-Remaining: 0\<close> and \<open>X-RateLimit-Reset: 0\<close>, whose body
  decodes, in a process whose local time is UTC: \<open>_make_request\<close> raises the
  \<open>ShotcutAPIError\<close> that \<open>api.py\<close> declares, with the reset time in its message.  That
  class is not \<open>RateLimitError\<close> and is no class of \<open>exceptions.py\<close>.
\<close>

theorem rate_limit_raises_generic_error:
  "make_request \<lparr>utc_offset = \<lambda>t. 0, builtin_text = txt\<rparr>
     (\<lambda>req. Inr \<lparr>resp_headers = [''X-RateLimit-Remaining'' \<mapsto> ''0'', ''X-RateLimit-Reset'' \<mapsto> ''0''],
                  resp_json = Inr (PDict [])\<rparr>)
     (ShotcutAPI ''key'') ''GET'' ''account'' None None
   = Inl (Exn ShotcutAPIError_api (PStr ''Rate limit exceeded. Reset at 1970-01-01 00:00:00''))
   \<and> ShotcutAPIError_api \<noteq> RateLimitError
   \<and> \<not> in_taxonomy ShotcutAPIError_api"
  by code_simp

text \<open>
  C2. \<open>create_domain\<close> called without \<open>redirect_root\<close> and \<open>redirect_404\<close>: the request
  handed to the transport has a body of three entries, two of them \<open>None\<close>.
  \<open>clean_params\<close> would have left the \<open>domain\<close> entry alone, and \<open>update_domain\<close> called
  the same way builds no entry at all.
\<close>

theorem create_domain_sends_nulls:
  "create_domain rt send (ShotcutAPI key) domain None None =
     receive rt (send \<lparr>req_method = ''POST'',
        req_url = ''https://shotcut.in/api/domain/add'',
        req_headers = [(''Authorization'', ''Bearer '' @ key), (''Content-Type'', ''application/json'')],
        req_json = Some [(''domain'', PStr domain), (''redirectroot'', PNone), (''redirect404'', PNone)],
        req_params = None\<rparr>)
   \<and> clean_params [(''domain'', PStr domain), (''redirectroot'', PNone), (''redirect404'', PNone)]
       = [(''domain'', PStr domain)]
   \<and> update_domain_data None None = []"
  by (simp add: create_domain_def make_request_def request_sent_def ShotcutAPI_def
        create_domain_data_def opt_str_def if_nonempty_def clean_params_def update_domain_data_def)

text \<open>
  C3. A response with \<open>X-RateLimit-Remaining: 0\<close> whose \<open>X-RateLimit-Reset\<close> is not a
  number: the \<open>ValueError\<close> of \<open>int\<close> leaves \<open>_make_request\<close> as it is, since the
  \<open>except\<close> clause catches \<open>RequestException\<close> only.
\<close>

theorem non_numeric_reset_escapes:
  "make_request \<lparr>utc_offset = off, builtin_text = txt\<rparr>
     (\<lambda>req. Inr \<lparr>resp_headers = [''X-RateLimit-Remaining'' \<mapsto> ''0'', ''X-RateLimit-Reset'' \<mapsto> ''soon''],
                  resp_json = Inr (PDict [])\<rparr>)
     (ShotcutAPI ''key'') ''GET'' ''account'' None None
   = Inl (Exn ValueError (PStr (txt (IntLiteral ''soon''))))
   \<and> \<not> in_taxonomy ValueError \<and> ValueError \<noteq> ShotcutAPIError_api"
  by code_simp

text \<open>
  Claim C5.  The body check is the third step of the response handling: it is reached when
  the transport has answered, the body has decoded, and the rate-limit check before it has
  let the response pass.  For every such call whose body is a mapping with a number, if
  any, under \<open>error\<close>: if the \<open>error\<close> entry is present and not equal to 0, the call raises
  the \<open>ShotcutAPIError\<close> of \<open>api.py\<close>, the generic error, built from the \<open>message\<close> entry,
  or from \<open>"Unknown API error"\<close> when there is none; if the \<open>error\<close> entry is absent or
  equal to 0, the call returns the decoded body unchanged.
\<close>

theorem api_error_after_rate_limit_check:
  assumes "send (request_sent self method endpoint data params) = Inr response"
      and "resp_json response = Inr (PDict d)"
      and "resp_headers response ''X-RateLimit-Remaining'' \<noteq> Some ''0''"
      and "\<forall>v. map_of d ''error'' = Some v \<longrightarrow> is_number v"
  shows "make_request rt send self method endpoint data params =
           (if \<exists>v. map_of d ''error'' = Some v \<and> ne_zero v
            then Inl (Exn ShotcutAPIError_api (dict_get d ''message'' (PStr ''Unknown API error'')))
            else Inr (PDict d))"
proof -
  have "truthy (dict_get d ''error'' PNone) \<longleftrightarrow> (\<exists>v. map_of d ''error'' = Some v \<and> ne_zero v)"
  proof (cases "map_of d ''error''")
    case None
    then show ?thesis by (simp add: dict_get_def)
  next
    case (Some v)
    with assms(4) have "is_number v" by simp
    then have "truthy v = ne_zero v" by (rule number_truthy_iff_ne_zero)
    with Some show ?thesis by (simp add: dict_get_def)
  qed
  moreover have "make_request rt send self method endpoint data params =
           (if truthy (dict_get d ''error'' PNone)
            then Inl (Exn ShotcutAPIError_api (dict_get d ''message'' (PStr ''Unknown API error'')))
            else Inr (PDict d))"
    using assms(1) assms(2) assms(3) by (rule body_check_after_rate_limit_check)
  ultimately show ?thesis by simp
qed

theorem api_error_witness:
  "make_request \<lparr>utc_offset = \<lambda>t. 0, builtin_text = \<lambda>f. ''''\<rparr>
     (\<lambda>req. Inr \<lparr>resp_headers = Map.empty,
                  resp_json = Inr (PDict [(''error'', PInt 1), (''message'', PStr ''bad url'')])\<rparr>)
     (ShotcutAPI ''key'') ''POST'' ''url/add'' (Some [(''url'', PStr ''x'')]) None
   = Inl (Exn ShotcutAPIError_api (PStr ''bad url''))
   \<and> make_request \<lparr>utc_offset = \<lambda>t. 0, builtin_text = \<lambda>f. ''''\<rparr>
     (\<lambda>req. Inr \<lparr>resp_headers = Map.empty,
                  resp_json = Inr (PDict [(''error'', PInt 1)])\<rparr>)
     (ShotcutAPI ''key'') ''POST'' ''url/add'' (Some [(''url'', PStr ''x'')]) None
   = Inl (Exn ShotcutAPIError_api (PStr ''Unknown API error''))
   \<and> make_request \<lparr>utc_offset = \<lambda>t. 0, builtin_text = \<lambda>f. ''''\<rparr>
     (\<lambda>req. Inr \<lparr>resp_headers = Map.empty,
                  resp_json = Inr (PDict [(''error'', PInt 0), (''data'', PInt 7)])\<rparr>)
     (ShotcutAPI ''key'') ''POST'' ''url/add'' (Some [(''url'', PStr ''x'')]) None
   = Inr (PDict [(''error'', PInt 0), (''data'', PInt 7)])"
  using
    api_error_after_rate_limit_check [of
      "\<lambda>req. Inr \<lparr>resp_headers = Map.empty,
                  resp_json = Inr (PDict [(''error'', PInt 1), (''message'', PStr ''bad url'')])\<rparr>"
      "ShotcutAPI ''key''" "''POST''" "''url/add''" "Some [(''url'', PStr ''x'')]" None
      "\<lparr>resp_headers = Map.empty,
                  resp_json = Inr (PDict [(''error'', PInt 1), (''message'', PStr ''bad url'')])\<rparr>"
      "[(''error'', PInt 1), (''message'', PStr ''bad url'')]"
      "\<lparr>utc_offset = \<lambda>t. 0, builtin_text = \<lambda>f. ''''\<rparr>"]
    api_error_after_rate_limit_check [of
      "\<lambda>req. Inr \<lparr>resp_headers = Map.empty,
                  resp_json = Inr (PDict [(''error'', PInt 1)])\<rparr>"
      "ShotcutAPI ''key''" "''POST''" "''url/add''" "Some [(''url'', PStr ''x'')]" None
      "\<lparr>resp_headers = Map.empty,
                  resp_json = Inr (PDict [(''error'', PInt 1)])\<rparr>"
      "[(''error'', PInt 1)]"
      "\<lparr>utc_offset = \<lambda>t. 0, builtin_text = \<lambda>f. ''''\<rparr>"]
    api_error_after_rate_limit_check [of
      "\<lambda>req. Inr \<lparr>resp_headers = Map.empty,
                  resp_json = Inr (PDict [(''error'', PInt 0), (''data'', PInt 7)])\<rparr>"
      "ShotcutAPI ''key''" "''POST''" "''url/add''" "Some [(''url'', PStr ''x'')]" None
      "\<lparr>resp_headers = Map.empty,
                  resp_json = Inr (PDict [(''error'', PInt 0), (''data'', PInt 7)])\<rparr>"
      "[(''error'', PInt 0), (''data'', PInt 7)]"
      "\<lparr>utc_offset = \<lambda>t. 0, builtin_text = \<lambda>f. ''''\<rparr>"]
  by (simp add: dict_get_def)

subsection \<open>Record construction\<close>

text \<open>
  Claim C4, as stated, fails: a mapping with a key that \<open>Link\<close> does not declare makes
  \<open>create_model_from_response\<close> raise the built-in \<open>ValueError\<close>, which is not
  \<open>ValidationError\<close> and is no class of \<open>exceptions.py\<close>.  The message does carry the name
  of the class.
\<close>

theorem mismatch_raises_builtin_ValueError:
  "snd (create_model_from_response
          \<lparr>utc_offset = \<lambda>t. 0, builtin_text = \<lambda>f. ''(text of the TypeError)''\<rparr>
          Link [(''id'', PInt 1), (''bogus'', PInt 2)])
     = Inl (Exn ValueError (PStr ''Invalid data for Link: (text of the TypeError)''))
   \<and> ValueError \<noteq> ValidationError \<and> \<not> in_taxonomy ValueError"
  by code_simp

text \<open>
  Claim C4, amended: for every record class and every non-empty mapping whose entries under
  \<open>created_at\<close>, \<open>updated_at\<close> and \<open>expiry\<close> are strings or falsy values, if the mapping has a
  key that the class does not declare, or lacks a field that the class declares without a
  default, then \<open>create_model_from_response\<close> raises the built-in \<open>ValueError\<close> whose message
  is \<open>Invalid data for\<close>, the name of the class, a colon and the text of the \<open>TypeError\<close> that
  the constructor raised.
\<close>

theorem mismatch_raises_ValueError:
  assumes "data \<noteq> []"
      and "\<forall>k\<in>set date_keys. \<forall>v. map_of data k = Some v \<longrightarrow> is_str v \<or> \<not> truthy v"
      and "(\<exists>k\<in>set (map fst data). k \<notin> set (map fst (dataclass_fields cls)))
           \<or> (\<exists>f\<in>set (dataclass_fields cls). snd f = None \<and> fst f \<notin> set (map fst data))"
  shows "snd (create_model_from_response rt cls data) =
           Inl (Exn ValueError
                  (PStr (''Invalid data for '' @ class_name cls @ '': '' @
                         builtin_text rt (InitArguments (class_name cls) (map fst data)))))"
proof -
  from create_model_state [of data rt cls, OF assms(1) assms(2)]
  obtain d3 where keys: "map fst d3 = map fst data"
    and run: "create_model_from_response rt cls data =
               (d3,
                case dataclass_init cls d3 of
                  Inr obj \<Rightarrow> Inr (Some obj)
                | Inl c \<Rightarrow>
                    if c = TypeError
                    then Inl (Exn ValueError
                           (PStr (''Invalid data for '' @ class_name cls @ '': '' @
                                  builtin_text rt (InitArguments (class_name cls) (map fst d3)))))
                    else Inl (Exn c (PStr (builtin_text rt
                           (InitArguments (class_name cls) (map fst d3))))))"
    by (elim exE conjE) (rule that)
  have "dataclass_init cls d3 = Inl TypeError"
    using assms(3) keys by (intro dataclass_init_mismatch) simp
  with run keys show ?thesis by simp
qed

theorem mismatch_raises_ValueError_witness:
  "snd (create_model_from_response
          \<lparr>utc_offset = \<lambda>t. 0, builtin_text = \<lambda>f. ''(text of the TypeError)''\<rparr>
          Link [(''id'', PInt 1), (''created_at'', PStr ''2024-01-01 00:00:00''), (''bogus'', PInt 2)])
     = Inl (Exn ValueError (PStr ''Invalid data for Link: (text of the TypeError)''))
   \<and> snd (create_model_from_response
          \<lparr>utc_offset = \<lambda>t. 0, builtin_text = \<lambda>f. ''(text of the TypeError)''\<rparr>
          AccountStats [(''total_links'', PInt 1)])
     = Inl (Exn ValueError (PStr ''Invalid data for AccountStats: (text of the TypeError)''))"
proof -
  let ?rt = "\<lparr>utc_offset = \<lambda>t. 0, builtin_text = \<lambda>f. ''(text of the TypeError)''\<rparr>"
  let ?d = "[(''id'', PInt 1), (''created_at'', PStr ''2024-01-01 00:00:00''), (''bogus'', PInt 2)]"
  let ?e = "[(''total_links'', PInt 1)]"
  have d1: "?d \<noteq> []" by simp
  have d2: "\<forall>k\<in>set date_keys. \<forall>v. map_of ?d k = Some v \<longrightarrow> is_str v \<or> \<not> truthy v"
    by (simp add: date_keys_def)
  have d3: "(\<exists>k\<in>set (map fst ?d). k \<notin> set (map fst (dataclass_fields Link)))
           \<or> (\<exists>f\<in>set (dataclass_fields Link). snd f = None \<and> fst f \<notin> set (map fst ?d))"
    by (simp add: dataclass_fields_def base_fields_def)
  have e1: "?e \<noteq> []" by simp
  have e2: "\<forall>k\<in>set date_keys. \<forall>v. map_of ?e k = Some v \<longrightarrow> is_str v \<or> \<not> truthy v"
    by (simp add: date_keys_def)
  have e3: "(\<exists>k\<in>set (map fst ?e). k \<notin> set (map fst (dataclass_fields AccountStats)))
           \<or> (\<exists>f\<in>set (dataclass_fields AccountStats). snd f = None \<and> fst f \<notin> set (map fst ?e))"
    by (simp add: dataclass_fields_def)
  show ?thesis
    using mismatch_raises_ValueError [OF d1 d2 d3, of ?rt]
          mismatch_raises_ValueError [OF e1 e2 e3, of ?rt]
    by (simp add: class_name_def)
qed

text \<open>
  Claim C10, as stated, fails on a mapping whose \<open>created_at\<close> is the number 5 and whose
  \<open>updated_at\<close> is a date string: \<open>strptime\<close> raises \<open>TypeError\<close> on the number, outside the
  \<open>try\<close>, and the call ends before \<open>updated_at\<close> is looked at.  The caller's mapping still
  holds the string, not the date and time it parses to.
\<close>

theorem later_date_entry_not_replaced:
  "create_model_from_response
     \<lparr>utc_offset = \<lambda>t. 0, builtin_text = \<lambda>f. ''(text)''\<rparr> Link
     [(''created_at'', PInt 5), (''updated_at'', PStr ''2024-01-01 00:00:00'')]
   = ([(''created_at'', PInt 5), (''updated_at'', PStr ''2024-01-01 00:00:00'')],
      Inl (Exn TypeError (PStr ''(text)'')))
   \<and> parsed ''2024-01-01 00:00:00''
       = PDatetime \<lparr>dt_year = 2024, dt_month = 1, dt_day = 1,
                     dt_hour = 0, dt_minute = 0, dt_second = 0\<rparr>"
  by code_simp

text \<open>
  Claim C10, amended: \<open>create_model_from_response\<close> changes the caller's mapping in place.
  For every non-empty mapping whose entries under \<open>created_at\<close>, \<open>updated_at\<close> and \<open>expiry\<close>
  are strings or falsy values, the mapping holds the same keys in the same order when the
  call ends, each of these entries that was a string \<open>s\<close> holds the parsed date and time, or
  \<open>None\<close> when \<open>strptime\<close> rejects \<open>s\<close>, and every other entry is as it was.  The statement is
  about the first component, the mapping when the call ends, and holds whatever the second
  component is: the change stays when the constructor then fails, as the last conjunct of
  the instance below shows.
\<close>

theorem date_entries_replaced_in_place:
  assumes "data \<noteq> []"
      and "\<forall>k\<in>set date_keys. \<forall>v. map_of data k = Some v \<longrightarrow> is_str v \<or> \<not> truthy v"
  shows "map fst (fst (create_model_from_response rt cls data)) = map fst data
       \<and> (\<forall>k s. k \<in> set date_keys \<and> map_of data k = Some (PStr s) \<longrightarrow>
             map_of (fst (create_model_from_response rt cls data)) k = Some (parsed s))
       \<and> (\<forall>k. k \<notin> set date_keys \<longrightarrow>
             map_of (fst (create_model_from_response rt cls data)) k = map_of data k)"
proof -
  from create_model_state [of data rt cls, OF assms(1) assms(2)]
  obtain d3 where keys: "map fst d3 = map fst data"
    and vals: "map_of d3 = (\<lambda>x. if x \<in> set date_keys then map_option date_value (map_of data x)
                               else map_of data x)"
    and run: "fst (create_model_from_response rt cls data) = d3"
    by force
  show ?thesis
    unfolding run using keys vals by (simp add: date_value_def)
qed

theorem date_entries_replaced_witness:
  "map_of (fst (create_model_from_response
                  \<lparr>utc_offset = \<lambda>t. 0, builtin_text = \<lambda>f. ''(text)''\<rparr> Link
                  [(''id'', PInt 5), (''created_at'', PStr ''2024-01-01 00:00:00''),
                   (''expiry'', PStr ''soon'')])) ''created_at''
     = Some (PDatetime \<lparr>dt_year = 2024, dt_month = 1, dt_day = 1,
                        dt_hour = 0, dt_minute = 0, dt_second = 0\<rparr>)
   \<and> map_of (fst (create_model_from_response
                  \<lparr>utc_offset = \<lambda>t. 0, builtin_text = \<lambda>f. ''(text)''\<rparr> Link
                  [(''id'', PInt 5), (''created_at'', PStr ''2024-01-01 00:00:00''),
                   (''expiry'', PStr ''soon'')])) ''expiry''
     = Some PNone
   \<and> map_of (fst (create_model_from_response
                  \<lparr>utc_offset = \<lambda>t. 0, builtin_text = \<lambda>f. ''(text)''\<rparr> Link
                  [(''id'', PInt 5), (''created_at'', PStr ''2024-01-01 00:00:00''),
                   (''expiry'', PStr ''soon'')])) ''id''
     = Some (PInt 5)
   \<and> snd (create_model_from_response
                  \<lparr>utc_offset = \<lambda>t. 0, builtin_text = \<lambda>f. ''(text)''\<rparr> Link
                  [(''id'', PInt 5), (''created_at'', PStr ''2024-01-01 00:00:00''),
                   (''expiry'', PStr ''soon'')])
     = Inl (Exn ValueError (PStr ''Invalid data for Link: (text)''))"
proof -
  let ?rt = "\<lparr>utc_offset = \<lambda>t. 0, builtin_text = \<lambda>f. ''(text)''\<rparr>"
  let ?d = "[(''id'', PInt 5), (''created_at'', PStr ''2024-01-01 00:00:00''),
             (''expiry'', PStr ''soon'')]"
  have h1: "?d \<noteq> []" by simp
  have h2: "\<forall>k\<in>set date_keys. \<forall>v. map_of ?d k = Some v \<longrightarrow> is_str v \<or> \<not> truthy v"
    by (simp add: date_keys_def)
  note t = date_entries_replaced_in_place [OF h1 h2, of ?rt Link]
  have p1: "parsed ''2024-01-01 00:00:00'' = PDatetime \<lparr>dt_year = 2024, dt_month = 1, dt_day = 1,
                                    dt_hour = 0, dt_minute = 0, dt_second = 0\<rparr>"
    by code_simp
  have p2: "parsed ''soon'' = PNone" by code_simp
  have s: "snd (create_model_from_response ?rt Link ?d)
     = Inl (Exn ValueError (PStr ''Invalid data for Link: (text)''))"
    by code_simp
  from t p1 p2 s show ?thesis by (simp add: date_keys_def)
qed

subsection \<open>Records\<close>

text \<open>
  C9, as stated, fails: a \<open>PaginatedResponse\<close> on its only page can be built with
  \<open>has_next\<close> true.
\<close>

theorem has_next_not_enforced:
  "\<not> pagination_invariant
       \<lparr>items = ([] :: model_instance list), total = 0, current_page = 1, total_pages = 1,
        has_next = True, has_prev = False\<rparr>"
  by (simp add: pagination_invariant_def)

text \<open>
  C9, amended. \<open>has_next\<close> of a \<open>PaginatedResponse\<close> is the value the constructor was
  given; it equals \<open>current_page < total_pages\<close> exactly when the caller passed that.
\<close>

theorem has_next_as_given:
  "has_next \<lparr>items = xs, total = t, current_page = c, total_pages = n,
             has_next = h, has_prev = q\<rparr> = h
   \<and> pagination_invariant \<lparr>items = xs, total = t, current_page = c, total_pages = n,
                            has_next = h, has_prev = q\<rparr> = (h = (c < n))"
  by (simp add: pagination_invariant_def)

subsection \<open>Value helpers\<close>

text \<open>
  C6. \<open>clean_params\<close> returns exactly the entries of its argument whose value is not
  \<open>None\<close>, in the order they had, each key with the value it had; values that are false
  but present (\<open>0\<close>, \<open>False\<close>, the empty string) stay.  The argument itself is a value of the
  model and is not changed.
\<close>

theorem clean_params_keeps_present:
  "set (clean_params params) = {(k, v). (k, v) \<in> set params \<and> v \<noteq> PNone}
   \<and> subseq (clean_params params) params
   \<and> clean_params [(''a'', PInt 1), (''b'', PNone), (''c'', PInt 0)]
       = [(''a'', PInt 1), (''c'', PInt 0)]
   \<and> clean_params [(''x'', PBool False), (''y'', PNone), (''z'', PStr ''''), (''w'', PInt 0)]
       = [(''x'', PBool False), (''z'', PStr ''''), (''w'', PInt 0)]"
proof -
  have "set (clean_params params) = {(k, v). (k, v) \<in> set params \<and> v \<noteq> PNone}"
    by (auto simp: clean_params_def)
  moreover have "subseq (clean_params params) params"
    unfolding clean_params_def by (rule subseq_filter_left)
  moreover have "clean_params [(''a'', PInt 1), (''b'', PNone), (''c'', PInt 0)]
       = [(''a'', PInt 1), (''c'', PInt 0)]"
    by (simp add: clean_params_def)
  moreover have
    "clean_params [(''x'', PBool False), (''y'', PNone), (''z'', PStr ''''), (''w'', PInt 0)]
       = [(''x'', PBool False), (''z'', PStr ''''), (''w'', PInt 0)]"
    by (simp add: clean_params_def)
  ultimately show ?thesis by blast
qed























end
